theory Spec2Isabelle
  imports Complex_Main
begin

section \<open>Data model of \<open>multimodal_processor.cpp\<close>\<close>

text \<open>
  The two configuration structs are declared in headers that are not part of the
  translated file. Only the fields that \<open>MultimodalProcessor::initialize\<close> reads or
  writes are modelled. Every numeric field is copied unchanged from one struct to the
  other and never computed with, so integers are \<open>int\<close> and the two floating-point
  tuning knobs are \<open>real\<close>.
\<close>

record InferenceConfig =
  model_path :: string
  n_ctx :: int
  n_gpu_layers :: int
  n_batch :: int
  n_ubatch :: int
  n_predict :: int
  temperature :: real
  top_p :: real
  top_k :: int
  seed :: int
  n_threads :: int

record MultimodalConfig =
  model_path :: string
  clip_model_path :: string
  n_ctx :: int
  n_gpu_layers :: int
  n_batch :: int
  n_ubatch :: int
  n_predict :: int
  temperature :: real
  top_p :: real
  top_k :: int
  seed :: int
  n_threads :: int

text \<open>
  Both throw statements of the file throw \<open>std::runtime_error\<close> with a message; the
  message is the only thing that tells the two apart. \<open>null_dereference\<close> stands for
  the undefined behaviour of \<open>llm_->\<close> on a null \<open>llm_\<close>; it is shown below never to
  be produced.
\<close>

datatype error = runtime_error string | null_dereference

text \<open>
  Everything the processor does to the outside world, in the order it does it: lines
  written to \<open>std::cout\<close> and \<open>std::cerr\<close>, calls into \<open>LLMWrapper\<close>, and calls into
  the native llava/clip library. \<open>clip_free\<close> occurs in the source only inside a
  comment (line 72); the constructor exists so that its absence from what an operation
  emits can be stated.
\<close>

datatype event =
    Cout string
  | Cerr string
  | LLMWrapper_new
  | LLMWrapper_delete
  | LLMWrapper_initialize InferenceConfig
  | LLMWrapper_cleanup
  | LLMWrapper_generate string
  | LLMWrapper_generateStreaming string
  | llava_image_embed_free nat
  | clip_free nat

text \<open>
  \<open>LLMWrapper\<close> is defined in another translation unit. Its behaviour is a parameter
  of every operation below: \<open>'e\<close> is the state of one wrapper object and \<open>'cb\<close> the
  type of the streaming callback. \<open>llm_generate\<close> and \<open>llm_generateStreaming\<close> may
  throw; \<open>Inl w\<close> and \<open>Some w\<close> carry the message of the exception.
  \<open>LLMWrapper::cleanup\<close> is always followed by the destruction of the object, so its
  effect on the object's state is not a parameter; the call is recorded as an event.
\<close>

record ('e, 'cb) LLMWrapper =
  llm_new :: 'e
  llm_initialize :: "InferenceConfig \<Rightarrow> 'e \<Rightarrow> bool \<times> 'e"
  llm_generate :: "string \<Rightarrow> 'e \<Rightarrow> (string + string) \<times> 'e"
  llm_generateStreaming :: "string \<Rightarrow> 'cb \<Rightarrow> 'e \<Rightarrow> string option \<times> 'e"
  llm_isLoaded :: "'e \<Rightarrow> bool"

text \<open>
  The members of \<open>MultimodalProcessor\<close> (the source spells them with a trailing
  underscore). \<open>llm_\<close> is a \<open>std::unique_ptr\<close>, the other two are raw pointers;
  \<open>None\<close> is \<open>nullptr\<close> and a pointer is the address it holds.
\<close>

record 'e MultimodalProcessor =
  config :: MultimodalConfig
  llm :: "'e option"
  clip_ctx :: "nat option"
  image_embed :: "nat option"

section \<open>Operations\<close>

text \<open>
  Every operation returns its C++ result, the processor after the call and the list
  of events the call emitted.
\<close>

text \<open>
  The constructor (lines 10-14). \<open>config_\<close> is default-constructed; the defaults are
  in the missing header, so they are a parameter.
\<close>

definition new_MultimodalProcessor :: "MultimodalConfig \<Rightarrow> 'e MultimodalProcessor" where
  "new_MultimodalProcessor dflt =
     \<lparr>config = dflt, llm = None, clip_ctx = None, image_embed = None\<rparr>"

text \<open>Lines 26-37: the field-by-field copy into the wrapper's configuration.\<close>

definition llm_config_of :: "MultimodalConfig \<Rightarrow> InferenceConfig" where
  "llm_config_of cfg =
     \<lparr>InferenceConfig.model_path = model_path cfg,
      InferenceConfig.n_ctx = n_ctx cfg,
      InferenceConfig.n_gpu_layers = n_gpu_layers cfg,
      InferenceConfig.n_batch = n_batch cfg,
      InferenceConfig.n_ubatch = n_ubatch cfg,
      InferenceConfig.n_predict = n_predict cfg,
      InferenceConfig.temperature = temperature cfg,
      InferenceConfig.top_p = top_p cfg,
      InferenceConfig.top_k = top_k cfg,
      InferenceConfig.seed = seed cfg,
      InferenceConfig.n_threads = n_threads cfg\<rparr>"

text \<open>
  \<open>initialize\<close> (lines 20-63). Assigning the fresh \<open>unique_ptr\<close> to \<open>llm_\<close> deletes
  the wrapper it held before, if any. The vision-encoder load of line 52 is commented
  out, so the test of line 54 reads the handle the processor already had.
\<close>

definition initialize ::
  "('e, 'cb) LLMWrapper \<Rightarrow> MultimodalConfig \<Rightarrow> 'e MultimodalProcessor
     \<Rightarrow> bool \<times> 'e MultimodalProcessor \<times> event list" where
  "initialize E cfg s =
     (let s1 = s\<lparr>config := cfg\<rparr>;
          ev1 = LLMWrapper_new # (case llm s1 of None \<Rightarrow> [] | Some old \<Rightarrow> [LLMWrapper_delete]);
          llm_config = llm_config_of cfg;
          (ok, e) = llm_initialize E llm_config (llm_new E);
          s2 = s1\<lparr>llm := Some e\<rparr>;
          ev2 = ev1 @ [LLMWrapper_initialize llm_config]
      in if \<not> ok then (False, s2, ev2 @ [Cerr ''Failed to initialize LLM''])
         else if clip_model_path cfg \<noteq> [] then
           (True, s2,
            ev2 @ [Cout (''Loading vision encoder from: '' @ clip_model_path cfg)] @
              (if clip_ctx s2 = None
               then [Cerr ''Note: Vision encoder not loaded. Text-only mode.'']
               else [Cout ''Vision encoder loaded successfully!'']))
         else (True, s2, ev2))"

text \<open>
  \<open>cleanup\<close> (lines 65-80). The embedding is freed and nulled; the encoder handle is
  nulled only (its release call is commented out); the wrapper is cleaned up and
  \<open>reset()\<close> deletes it.
\<close>

definition cleanup ::
  "'e MultimodalProcessor \<Rightarrow> 'e MultimodalProcessor \<times> event list" where
  "cleanup s =
     (let (s1, ev1) = (case image_embed s of
                         Some p \<Rightarrow> (s\<lparr>image_embed := None\<rparr>, [llava_image_embed_free p])
                       | None \<Rightarrow> (s, []));
          s2 = (case clip_ctx s1 of
                  Some c \<Rightarrow> s1\<lparr>clip_ctx := None\<rparr>
                | None \<Rightarrow> s1);
          (s3, ev3) = (case llm s2 of
                         Some e \<Rightarrow> (s2\<lparr>llm := None\<rparr>, [LLMWrapper_cleanup, LLMWrapper_delete])
                       | None \<Rightarrow> (s2, []))
      in (s3, ev1 @ ev3))"

text \<open>
  \<open>loadImage\<close> (lines 82-107). Decoding and encoding are commented out: past the
  guard the function frees the previous embedding and returns \<open>clip_ctx_ != nullptr\<close>.
\<close>

definition loadImage ::
  "string \<Rightarrow> 'e MultimodalProcessor \<Rightarrow> bool \<times> 'e MultimodalProcessor \<times> event list" where
  "loadImage image_path s =
     (if clip_ctx s = None then (False, s, [Cerr ''Vision encoder not initialized''])
      else
        let (s1, ev1) = (case image_embed s of
                           Some p \<Rightarrow> (s\<lparr>image_embed := None\<rparr>, [llava_image_embed_free p])
                         | None \<Rightarrow> (s, []))
        in (clip_ctx s1 \<noteq> None, s1, ev1))"

text \<open>
  \<open>isLoaded\<close> (lines 165-167), a \<open>const\<close> query: it changes nothing and emits
  nothing.
\<close>

definition isLoaded :: "('e, 'cb) LLMWrapper \<Rightarrow> 'e MultimodalProcessor \<Rightarrow> bool" where
  "isLoaded E s = (case llm s of None \<Rightarrow> False | Some e \<Rightarrow> llm_isLoaded E e)"

text \<open>
  \<open>generateFromImage\<close> (lines 109-138), in two parts. The first is what the method
  does once the condition \<open>clip_ctx_ && !loadImage(image_path)\<close> of line 118 has been
  evaluated: \<open>ok\<close> is the negation of that condition, \<open>s1\<close> and \<open>ev1\<close> are the
  processor and the events its evaluation left. It is the throw of line 119, or the
  prompt of lines 128-135 and the delegation of line 137.
\<close>

definition generateFromImage_after_load ::
  "('e, 'cb) LLMWrapper \<Rightarrow> string \<Rightarrow> string \<Rightarrow> bool \<Rightarrow> 'e MultimodalProcessor \<Rightarrow> event list
     \<Rightarrow> (error + string) \<times> 'e MultimodalProcessor \<times> event list" where
  "generateFromImage_after_load E image_path prompt ok s1 ev1 =
     (if \<not> ok
      then (Inl (runtime_error (''Failed to load image: '' @ image_path)), s1, ev1)
      else
        let full_prompt =
              (if clip_ctx s1 \<noteq> None
               then ''USER: <image>\<newline>'' @ prompt @ ''\<newline>ASSISTANT: ''
               else prompt)
        in (case llm s1 of
              None \<Rightarrow> (Inl null_dereference, s1, ev1)
            | Some e \<Rightarrow>
                let (r, e') = llm_generate E full_prompt e
                in ((case r of Inl w \<Rightarrow> Inl (runtime_error w) | Inr out \<Rightarrow> Inr out),
                    s1\<lparr>llm := Some e'\<rparr>,
                    ev1 @ [LLMWrapper_generate full_prompt])))"

text \<open>
  The second part is the guard of lines 113-115 and the evaluation of the condition:
  \<open>loadImage\<close> is called only when the handle is non-null.
\<close>

definition generateFromImage ::
  "('e, 'cb) LLMWrapper \<Rightarrow> string \<Rightarrow> string \<Rightarrow> 'e MultimodalProcessor
     \<Rightarrow> (error + string) \<times> 'e MultimodalProcessor \<times> event list" where
  "generateFromImage E image_path prompt s =
     (if \<not> isLoaded E s
      then (Inl (runtime_error ''Multimodal processor not initialized''), s, [])
      else
        let (ok, s1, ev1) =
              (if clip_ctx s \<noteq> None then loadImage image_path s else (True, s, []))
        in generateFromImage_after_load E image_path prompt ok s1 ev1)"

text \<open>\<open>generateFromImageStreaming\<close> (lines 140-163), in the same two parts.\<close>

definition generateFromImageStreaming_after_load ::
  "('e, 'cb) LLMWrapper \<Rightarrow> string \<Rightarrow> string \<Rightarrow> 'cb \<Rightarrow> bool \<Rightarrow> 'e MultimodalProcessor
     \<Rightarrow> event list \<Rightarrow> (error + unit) \<times> 'e MultimodalProcessor \<times> event list" where
  "generateFromImageStreaming_after_load E image_path prompt callback ok s1 ev1 =
     (if \<not> ok
      then (Inl (runtime_error (''Failed to load image: '' @ image_path)), s1, ev1)
      else
        let full_prompt =
              (if clip_ctx s1 \<noteq> None
               then ''USER: <image>\<newline>'' @ prompt @ ''\<newline>ASSISTANT: ''
               else prompt)
        in (case llm s1 of
              None \<Rightarrow> (Inl null_dereference, s1, ev1)
            | Some e \<Rightarrow>
                let (r, e') = llm_generateStreaming E full_prompt callback e
                in ((case r of Some w \<Rightarrow> Inl (runtime_error w) | None \<Rightarrow> Inr ()),
                    s1\<lparr>llm := Some e'\<rparr>,
                    ev1 @ [LLMWrapper_generateStreaming full_prompt])))"

definition generateFromImageStreaming ::
  "('e, 'cb) LLMWrapper \<Rightarrow> string \<Rightarrow> string \<Rightarrow> 'cb \<Rightarrow> 'e MultimodalProcessor
     \<Rightarrow> (error + unit) \<times> 'e MultimodalProcessor \<times> event list" where
  "generateFromImageStreaming E image_path prompt callback s =
     (if \<not> isLoaded E s
      then (Inl (runtime_error ''Multimodal processor not initialized''), s, [])
      else
        let (ok, s1, ev1) =
              (if clip_ctx s \<noteq> None then loadImage image_path s else (True, s, []))
        in generateFromImageStreaming_after_load E image_path prompt callback ok s1 ev1)"

text \<open>The two failures the specification names, as the exceptions the code throws.\<close>

definition InvalidState :: error where
  "InvalidState = runtime_error ''Multimodal processor not initialized''"

definition ImageLoadError :: "string \<Rightarrow> error" where
  "ImageLoadError image_path = runtime_error (''Failed to load image: '' @ image_path)"


text \<open>The prompts handed to the wrapper's two generation methods, read off the events.\<close>

fun delegated_prompts :: "event list \<Rightarrow> string list" where
  "delegated_prompts [] = []"
| "delegated_prompts (LLMWrapper_generate p # evs) = p # delegated_prompts evs"
| "delegated_prompts (LLMWrapper_generateStreaming p # evs) = p # delegated_prompts evs"
| "delegated_prompts (ev # evs) = delegated_prompts evs"

section \<open>Sequences of public calls\<close>

datatype 'cb call =
    Initialize MultimodalConfig
  | Cleanup
  | LoadImage string
  | GenerateFromImage string string
  | GenerateFromImageStreaming string string 'cb
  | IsLoaded

fun step ::
  "('e, 'cb) LLMWrapper \<Rightarrow> 'cb call \<Rightarrow> 'e MultimodalProcessor \<Rightarrow> 'e MultimodalProcessor" where
  "step E (Initialize cfg) s = fst (snd (initialize E cfg s))"
| "step E Cleanup s = fst (cleanup s)"
| "step E (LoadImage image_path) s = fst (snd (loadImage image_path s))"
| "step E (GenerateFromImage image_path prompt) s =
     fst (snd (generateFromImage E image_path prompt s))"
| "step E (GenerateFromImageStreaming image_path prompt callback) s =
     fst (snd (generateFromImageStreaming E image_path prompt callback s))"
| "step E IsLoaded s = s"

fun run ::
  "('e, 'cb) LLMWrapper \<Rightarrow> 'cb call list \<Rightarrow> 'e MultimodalProcessor \<Rightarrow> 'e MultimodalProcessor" where
  "run E [] s = s"
| "run E (c # cs) s = run E cs (step E c s)"

section \<open>The part the two generation methods are said to share\<close>

text \<open>
  Written from the description of the two methods, not from either body: the guard on
  \<open>isLoaded\<close>, the image load when a vision encoder is present, and the prompt for the
  mode. It yields the failure, or the full prompt to delegate. Claim C10 compares both
  bodies with it.
\<close>

definition common_prelude ::
  "('e, 'cb) LLMWrapper \<Rightarrow> string \<Rightarrow> string \<Rightarrow> 'e MultimodalProcessor
     \<Rightarrow> (error + string) \<times> 'e MultimodalProcessor \<times> event list" where
  "common_prelude E image_path prompt s =
     (if \<not> isLoaded E s then (Inl InvalidState, s, [])
      else if clip_ctx s = None then (Inr prompt, s, [])
      else case loadImage image_path s of
             (ok, s1, ev1) \<Rightarrow>
               if ok then (Inr (''USER: <image>\<newline>'' @ prompt @ ''\<newline>ASSISTANT: ''), s1, ev1)
               else (Inl (ImageLoadError image_path), s1, ev1))"

section \<open>A test double for the wrapper\<close>

text \<open>
  A wrapper that loads every model whose path is not empty, records the prompts it is
  given and answers \<open>ok\<close>. It is used to run the operations on concrete inputs.
\<close>

record test_llm =
  loaded :: bool
  prompts :: "string list"

definition test_engine :: "(test_llm, unit) LLMWrapper" where
  "test_engine =
     \<lparr>llm_new = \<lparr>loaded = False, prompts = []\<rparr>,
      llm_initialize = (\<lambda>c e. (InferenceConfig.model_path c \<noteq> [],
                                e\<lparr>loaded := InferenceConfig.model_path c \<noteq> []\<rparr>)),
      llm_generate = (\<lambda>p e. (Inr ''ok'', e\<lparr>prompts := prompts e @ [p]\<rparr>)),
      llm_generateStreaming = (\<lambda>p cb e. (None, e\<lparr>prompts := prompts e @ [p]\<rparr>)),
      llm_isLoaded = loaded\<rparr>"


definition test_config :: "string \<Rightarrow> string \<Rightarrow> MultimodalConfig" where
  "test_config m c =
     \<lparr>model_path = m, clip_model_path = c, n_ctx = 4096, n_gpu_layers = 0,
      n_batch = 512, n_ubatch = 512, n_predict = 256, temperature = 7 / 10,
      top_p = 9 / 10, top_k = 40, seed = 42, n_threads = 4\<rparr>"

text \<open>
  A processor with a loaded wrapper, a vision-encoder handle at address 3 and a
  cached embedding at address 7. No sequence of calls produces it; it is the input
  on which the branches guarded by \<open>clip_ctx_\<close> are run.
\<close>

definition mm_processor :: "test_llm MultimodalProcessor" where
  "mm_processor =
     \<lparr>config = test_config ''m.gguf'' ''mmproj.gguf'',
      llm = Some \<lparr>loaded = True, prompts = []\<rparr>,
      clip_ctx = Some 3,
      image_embed = Some 7\<rparr>"

text \<open>A processor in text-only use: loaded wrapper, no encoder, nothing cached.\<close>

definition text_processor :: "test_llm MultimodalProcessor" where
  "text_processor =
     \<lparr>config = test_config ''m.gguf'' [],
      llm = Some \<lparr>loaded = True, prompts = []\<rparr>,
      clip_ctx = None,
      image_embed = None\<rparr>"

text \<open>The processor left behind by \<open>initialize\<close> on an empty model path.\<close>

definition failed_processor :: "test_llm MultimodalProcessor" where
  "failed_processor =
     \<lparr>config = test_config [] [],
      llm = Some \<lparr>loaded = False, prompts = []\<rparr>,
      clip_ctx = None,
      image_embed = None\<rparr>"

definition test_calls :: "unit call list" where
  "test_calls =
     [Initialize (test_config ''m.gguf'' ''mmproj.gguf''),
      LoadImage ''room.png'',
      GenerateFromImage ''room.png'' ''Describe this'',
      Cleanup,
      Initialize (test_config ''m.gguf'' ''mmproj.gguf'')]"

section \<open>Shared facts\<close>

text \<open>Each operation in closed form, with the local bindings of its body resolved.\<close>

lemma loadImage_no_encoder:
  "clip_ctx s = None \<Longrightarrow>
   loadImage image_path s = (False, s, [Cerr ''Vision encoder not initialized''])"
  by (simp add: loadImage_def)

lemma loadImage_with_encoder:
  "clip_ctx s \<noteq> None \<Longrightarrow>
   loadImage image_path s =
     (True, s\<lparr>image_embed := None\<rparr>,
      (case image_embed s of Some p \<Rightarrow> [llava_image_embed_free p] | None \<Rightarrow> []))"
  by (cases "image_embed s") (auto simp: loadImage_def)

lemma cleanup_eq:
  "cleanup s =
     (s\<lparr>image_embed := None, clip_ctx := None, llm := None\<rparr>,
      (case image_embed s of Some p \<Rightarrow> [llava_image_embed_free p] | None \<Rightarrow> []) @
      (case llm s of Some e \<Rightarrow> [LLMWrapper_cleanup, LLMWrapper_delete] | None \<Rightarrow> []))"
  by (cases "image_embed s"; cases "clip_ctx s"; cases "llm s") (simp_all add: cleanup_def)

lemma initialize_eq:
  "initialize E cfg s =
     (fst (llm_initialize E (llm_config_of cfg) (llm_new E)),
      s\<lparr>config := cfg, llm := Some (snd (llm_initialize E (llm_config_of cfg) (llm_new E)))\<rparr>,
      LLMWrapper_new # (case llm s of None \<Rightarrow> [] | Some old \<Rightarrow> [LLMWrapper_delete]) @
      [LLMWrapper_initialize (llm_config_of cfg)] @
      (if \<not> fst (llm_initialize E (llm_config_of cfg) (llm_new E))
       then [Cerr ''Failed to initialize LLM'']
       else if clip_model_path cfg = [] then []
       else [Cout (''Loading vision encoder from: '' @ clip_model_path cfg),
             if clip_ctx s = None
             then Cerr ''Note: Vision encoder not loaded. Text-only mode.''
             else Cout ''Vision encoder loaded successfully!'']))"
  by (simp add: initialize_def Let_def split: prod.split)

text \<open>The wrapper's configuration does not depend on the vision-encoder path.\<close>

lemma llm_config_of_clip [simp]:
  "llm_config_of (cfg\<lparr>clip_model_path := vp\<rparr>) = llm_config_of cfg"
  by (simp add: llm_config_of_def)

lemma isLoaded_iff: "isLoaded E s \<longleftrightarrow> (\<exists>e. llm s = Some e \<and> llm_isLoaded E e)"
  by (cases "llm s") (simp_all add: isLoaded_def)

lemma generateFromImage_not_loaded:
  "\<not> isLoaded E s \<Longrightarrow>
   generateFromImage E image_path prompt s =
     (Inl (runtime_error ''Multimodal processor not initialized''), s, [])"
  by (simp add: generateFromImage_def)

lemma generateFromImageStreaming_not_loaded:
  "\<not> isLoaded E s \<Longrightarrow>
   generateFromImageStreaming E image_path prompt callback s =
     (Inl (runtime_error ''Multimodal processor not initialized''), s, [])"
  by (simp add: generateFromImageStreaming_def)

lemma generateFromImage_eq:
  assumes "llm s = Some e" and "llm_isLoaded E e"
  shows "generateFromImage E image_path prompt s =
     ((case fst (llm_generate E
                  (if clip_ctx s = None then prompt
                   else ''USER: <image>\<newline>'' @ prompt @ ''\<newline>ASSISTANT: '') e) of
         Inl w \<Rightarrow> Inl (runtime_error w) | Inr out \<Rightarrow> Inr out),
      (if clip_ctx s = None then s else s\<lparr>image_embed := None\<rparr>)
        \<lparr>llm := Some (snd (llm_generate E
                  (if clip_ctx s = None then prompt
                   else ''USER: <image>\<newline>'' @ prompt @ ''\<newline>ASSISTANT: '') e))\<rparr>,
      (if clip_ctx s = None then []
       else case image_embed s of Some a \<Rightarrow> [llava_image_embed_free a] | None \<Rightarrow> []) @
      [LLMWrapper_generate
         (if clip_ctx s = None then prompt
          else ''USER: <image>\<newline>'' @ prompt @ ''\<newline>ASSISTANT: '')])"
proof (cases "clip_ctx s = None")
  case True
  with assms show ?thesis
    by (simp add: generateFromImage_def generateFromImage_after_load_def isLoaded_def Let_def
        split: prod.split)
next
  case False
  with assms show ?thesis
    by (simp add: generateFromImage_def generateFromImage_after_load_def isLoaded_def
        loadImage_with_encoder Let_def split: prod.split)
qed

lemma generateFromImageStreaming_eq:
  assumes "llm s = Some e" and "llm_isLoaded E e"
  shows "generateFromImageStreaming E image_path prompt callback s =
     ((case fst (llm_generateStreaming E
                  (if clip_ctx s = None then prompt
                   else ''USER: <image>\<newline>'' @ prompt @ ''\<newline>ASSISTANT: '') callback e) of
         Some w \<Rightarrow> Inl (runtime_error w) | None \<Rightarrow> Inr ()),
      (if clip_ctx s = None then s else s\<lparr>image_embed := None\<rparr>)
        \<lparr>llm := Some (snd (llm_generateStreaming E
                  (if clip_ctx s = None then prompt
                   else ''USER: <image>\<newline>'' @ prompt @ ''\<newline>ASSISTANT: '') callback e))\<rparr>,
      (if clip_ctx s = None then []
       else case image_embed s of Some a \<Rightarrow> [llava_image_embed_free a] | None \<Rightarrow> []) @
      [LLMWrapper_generateStreaming
         (if clip_ctx s = None then prompt
          else ''USER: <image>\<newline>'' @ prompt @ ''\<newline>ASSISTANT: '')])"
proof (cases "clip_ctx s = None")
  case True
  with assms show ?thesis
    by (simp add: generateFromImageStreaming_def generateFromImageStreaming_after_load_def
        isLoaded_def Let_def split: prod.split)
next
  case False
  with assms show ?thesis
    by (simp add: generateFromImageStreaming_def generateFromImageStreaming_after_load_def
        isLoaded_def loadImage_with_encoder Let_def split: prod.split)
qed

text \<open>
  The guard on \<open>isLoaded\<close> protects both uses of \<open>llm_->\<close>: neither method
  dereferences a null wrapper.
\<close>

lemma generateFromImage_no_null_dereference:
  "fst (generateFromImage E image_path p s) \<noteq> Inl null_dereference"
proof (cases "isLoaded E s")
  case True
  then obtain e where "llm s = Some e" and "llm_isLoaded E e"
    by (auto simp: isLoaded_iff)
  then show ?thesis
    by (simp add: generateFromImage_eq split: sum.split)
next
  case False
  then show ?thesis
    by (simp add: generateFromImage_not_loaded)
qed

lemma generateFromImageStreaming_no_null_dereference:
  "fst (generateFromImageStreaming E image_path p callback s) \<noteq> Inl null_dereference"
proof (cases "isLoaded E s")
  case True
  then obtain e where "llm s = Some e" and "llm_isLoaded E e"
    by (auto simp: isLoaded_iff)
  then show ?thesis
    by (simp add: generateFromImageStreaming_eq split: option.split)
next
  case False
  then show ?thesis
    by (simp add: generateFromImageStreaming_not_loaded)
qed

lemma delegated_prompts_free [simp]:
  "delegated_prompts ((case x of Some a \<Rightarrow> [llava_image_embed_free a] | None \<Rightarrow> []) @ evs) =
     delegated_prompts evs"
  by (cases x) simp_all

text \<open>No operation gives the processor a vision encoder.\<close>

lemma clip_ctx_initialize: "clip_ctx (fst (snd (initialize E cfg s))) = clip_ctx s"
  by (simp add: initialize_eq)

lemma clip_ctx_cleanup: "clip_ctx (fst (cleanup s)) = None"
  by (simp add: cleanup_eq)

lemma clip_ctx_loadImage: "clip_ctx (fst (snd (loadImage image_path s))) = clip_ctx s"
  by (cases "clip_ctx s = None") (simp_all add: loadImage_no_encoder loadImage_with_encoder)

lemma clip_ctx_generateFromImage:
  "clip_ctx (fst (snd (generateFromImage E image_path p s))) = clip_ctx s"
proof (cases "isLoaded E s")
  case True
  then obtain e where "llm s = Some e" and "llm_isLoaded E e"
    by (auto simp: isLoaded_iff)
  then show ?thesis
    by (simp add: generateFromImage_eq)
next
  case False
  then show ?thesis
    by (simp add: generateFromImage_not_loaded)
qed

lemma clip_ctx_generateFromImageStreaming:
  "clip_ctx (fst (snd (generateFromImageStreaming E image_path p callback s))) = clip_ctx s"
proof (cases "isLoaded E s")
  case True
  then obtain e where "llm s = Some e" and "llm_isLoaded E e"
    by (auto simp: isLoaded_iff)
  then show ?thesis
    by (simp add: generateFromImageStreaming_eq)
next
  case False
  then show ?thesis
    by (simp add: generateFromImageStreaming_not_loaded)
qed

lemma clip_ctx_step: "clip_ctx s = None \<Longrightarrow> clip_ctx (step E c s) = None"
  by (cases c)
    (simp_all add: clip_ctx_initialize clip_ctx_cleanup clip_ctx_loadImage
      clip_ctx_generateFromImage clip_ctx_generateFromImageStreaming)

lemma clip_ctx_run: "clip_ctx s = None \<Longrightarrow> clip_ctx (run E cs s) = None"
proof (induction cs arbitrary: s)
  case Nil
  then show ?case by simp
next
  case (Cons c cs)
  from Cons.prems have "clip_ctx (step E c s) = None"
    by (rule clip_ctx_step)
  then show ?case
    by (simp add: Cons.IH)
qed

lemma generateFromImage_events_text_only:
  "clip_ctx s = None \<Longrightarrow>
   snd (snd (generateFromImage E image_path p s)) =
     (if isLoaded E s then [LLMWrapper_generate p] else [])"
proof (cases "isLoaded E s")
  case True
  assume c: "clip_ctx s = None"
  from True obtain e where "llm s = Some e" and "llm_isLoaded E e"
    by (auto simp: isLoaded_iff)
  with True c show ?thesis
    by (simp add: generateFromImage_eq)
next
  case False
  then show ?thesis
    by (simp add: generateFromImage_not_loaded)
qed

lemma generateFromImageStreaming_events_text_only:
  "clip_ctx s = None \<Longrightarrow>
   snd (snd (generateFromImageStreaming E image_path p callback s)) =
     (if isLoaded E s then [LLMWrapper_generateStreaming p] else [])"
proof (cases "isLoaded E s")
  case True
  assume c: "clip_ctx s = None"
  from True obtain e where "llm s = Some e" and "llm_isLoaded E e"
    by (auto simp: isLoaded_iff)
  with True c show ?thesis
    by (simp add: generateFromImageStreaming_eq)
next
  case False
  then show ?thesis
    by (simp add: generateFromImageStreaming_not_loaded)
qed

text \<open>
  The concrete processors above that calls do produce: the one a failed
  \<open>initialize\<close> leaves, the one a successful \<open>initialize\<close> leaves, and the one the
  test sequence ends in.
\<close>

lemma failed_processor_reached:
  "fst (snd (initialize test_engine (test_config [] [])
               (new_MultimodalProcessor (test_config [] [])))) = failed_processor"
  by (simp add: initialize_eq failed_processor_def new_MultimodalProcessor_def test_engine_def
      test_config_def llm_config_of_def)

lemma text_processor_reached:
  "fst (snd (initialize test_engine (test_config ''m.gguf'' [])
               (new_MultimodalProcessor (test_config ''m.gguf'' [])))) = text_processor"
  by (simp add: initialize_eq text_processor_def new_MultimodalProcessor_def test_engine_def
      test_config_def llm_config_of_def)

lemma run_test_calls:
  "run test_engine test_calls (new_MultimodalProcessor (test_config [] [])) =
     \<lparr>config = test_config ''m.gguf'' ''mmproj.gguf'',
      llm = Some \<lparr>loaded = True, prompts = []\<rparr>,
      clip_ctx = None, image_embed = None\<rparr>"
  by (simp add: test_calls_def initialize_eq cleanup_eq loadImage_def generateFromImage_def
      generateFromImage_after_load_def isLoaded_def new_MultimodalProcessor_def test_engine_def test_config_def llm_config_of_def
      Let_def)

section \<open>Claims\<close>

subsection \<open>C1: a failed engine initialisation\<close>

text \<open>
  C1, as stated, says that after a failed \<open>initialize\<close> no partial state survives: no
  stored config and no engine handle. The code stores the config on line 21 and
  assigns the wrapper on line 24, both before the wrapper is initialised, and line 41
  returns without undoing either. On a fresh processor and a config whose model the
  test wrapper cannot load, \<open>initialize\<close> returns false, the handle holds the failed
  wrapper, the config is the one passed in, and the processor differs from the fresh
  one.
\<close>

theorem C1_counterexample:
  "fst (initialize test_engine (test_config [] ''mmproj.gguf'')
          (new_MultimodalProcessor (test_config ''m.gguf'' []))) = False \<and>
   llm (fst (snd (initialize test_engine (test_config [] ''mmproj.gguf'')
          (new_MultimodalProcessor (test_config ''m.gguf'' []))))) =
     Some \<lparr>loaded = False, prompts = []\<rparr> \<and>
   config (fst (snd (initialize test_engine (test_config [] ''mmproj.gguf'')
          (new_MultimodalProcessor (test_config ''m.gguf'' []))))) =
     test_config [] ''mmproj.gguf'' \<and>
   fst (snd (initialize test_engine (test_config [] ''mmproj.gguf'')
          (new_MultimodalProcessor (test_config ''m.gguf'' [])))) \<noteq>
     new_MultimodalProcessor (test_config ''m.gguf'' [])"
  by (simp add: initialize_def new_MultimodalProcessor_def test_engine_def test_config_def
      llm_config_of_def Let_def)

text \<open>
  C1, amended. If the wrapper fails to initialise on the translated config, then for
  every processor \<open>initialize\<close> returns false, stores the config, leaves in the engine
  handle the wrapper that failed (the wrapper held before, if any, is deleted), and
  leaves the vision-encoder handle and the cached embedding exactly as they were. It
  emits the construction, the initialisation call and the line
  \<open>Failed to initialize LLM\<close> on the error stream, and nothing else.
\<close>

theorem C1_failed_initialize:
  assumes "\<not> fst (llm_initialize E (llm_config_of cfg) (llm_new E))"
  shows "initialize E cfg s =
     (False,
      s\<lparr>config := cfg, llm := Some (snd (llm_initialize E (llm_config_of cfg) (llm_new E)))\<rparr>,
      LLMWrapper_new # (case llm s of None \<Rightarrow> [] | Some old \<Rightarrow> [LLMWrapper_delete]) @
      [LLMWrapper_initialize (llm_config_of cfg), Cerr ''Failed to initialize LLM''])"
  using assms by (simp add: initialize_eq)

theorem C1_failed_initialize_witness:
  "\<not> fst (llm_initialize test_engine (llm_config_of (test_config [] ''mmproj.gguf''))
            (llm_new test_engine)) \<and>
   initialize test_engine (test_config [] ''mmproj.gguf'') mm_processor =
     (False,
      mm_processor\<lparr>config := test_config [] ''mmproj.gguf'',
                   llm := Some \<lparr>loaded = False, prompts = []\<rparr>\<rparr>,
      [LLMWrapper_new, LLMWrapper_delete,
       LLMWrapper_initialize (llm_config_of (test_config [] ''mmproj.gguf'')),
       Cerr ''Failed to initialize LLM''])"
proof -
  have h: "\<not> fst (llm_initialize test_engine (llm_config_of (test_config [] ''mmproj.gguf''))
            (llm_new test_engine))"
    by (simp add: test_engine_def test_config_def llm_config_of_def)
  show ?thesis
    using h C1_failed_initialize [OF h, of mm_processor]
    by (simp add: test_engine_def test_config_def llm_config_of_def mm_processor_def)
qed

subsection \<open>C3: the result of \<open>initialize\<close>\<close>

text \<open>
  C3. For every config and every vision-encoder path put into it (empty, missing or
  unloadable alike), \<open>initialize\<close> returns exactly what the wrapper's own
  initialisation returns on the translated config, which does not contain that path;
  the engine handle holds the initialised wrapper and the vision-encoder handle is
  the one the processor had. So when the wrapper initialises and the processor had
  no encoder, \<open>initialize\<close> returns true with the engine present and the encoder
  absent, which is text-only mode.
\<close>

theorem C3_initialize_result:
  "fst (initialize E (cfg\<lparr>clip_model_path := vp\<rparr>) s) =
     fst (llm_initialize E (llm_config_of cfg) (llm_new E)) \<and>
   llm (fst (snd (initialize E (cfg\<lparr>clip_model_path := vp\<rparr>) s))) =
     Some (snd (llm_initialize E (llm_config_of cfg) (llm_new E))) \<and>
   clip_ctx (fst (snd (initialize E (cfg\<lparr>clip_model_path := vp\<rparr>) s))) = clip_ctx s \<and>
   (fst (llm_initialize E (llm_config_of cfg) (llm_new E)) \<and> clip_ctx s = None \<longrightarrow>
      fst (initialize E (cfg\<lparr>clip_model_path := vp\<rparr>) s) \<and>
      llm (fst (snd (initialize E (cfg\<lparr>clip_model_path := vp\<rparr>) s))) \<noteq> None \<and>
      clip_ctx (fst (snd (initialize E (cfg\<lparr>clip_model_path := vp\<rparr>) s))) = None)"
  by (simp add: initialize_eq)

theorem C3_initialize_result_witness:
  "fst (llm_initialize test_engine (llm_config_of (test_config ''m.gguf'' []))
         (llm_new test_engine)) \<and>
   clip_ctx (new_MultimodalProcessor (test_config [] []) :: test_llm MultimodalProcessor) = None \<and>
   fst (initialize test_engine (test_config ''m.gguf'' ''no-such-mmproj.gguf'')
         (new_MultimodalProcessor (test_config [] []))) \<and>
   llm (fst (snd (initialize test_engine (test_config ''m.gguf'' ''no-such-mmproj.gguf'')
         (new_MultimodalProcessor (test_config [] []))))) \<noteq> None \<and>
   clip_ctx (fst (snd (initialize test_engine (test_config ''m.gguf'' ''no-such-mmproj.gguf'')
         (new_MultimodalProcessor (test_config [] []))))) = None"
proof -
  have ok: "fst (llm_initialize test_engine (llm_config_of (test_config ''m.gguf'' []))
         (llm_new test_engine))"
    by (simp add: test_engine_def test_config_def llm_config_of_def)
  have nc: "clip_ctx (new_MultimodalProcessor (test_config [] []) :: test_llm MultimodalProcessor) = None"
    by (simp add: new_MultimodalProcessor_def)
  have c: "(test_config ''m.gguf'' [])\<lparr>clip_model_path := ''no-such-mmproj.gguf''\<rparr> =
           test_config ''m.gguf'' ''no-such-mmproj.gguf''"
    by (simp add: test_config_def)
  note t = C3_initialize_result [where E = test_engine and cfg = "test_config ''m.gguf'' []"
      and vp = "''no-such-mmproj.gguf''" and s = "new_MultimodalProcessor (test_config [] [])"]
  from t ok nc have
    "fst (initialize test_engine ((test_config ''m.gguf'' [])\<lparr>clip_model_path := ''no-such-mmproj.gguf''\<rparr>)
         (new_MultimodalProcessor (test_config [] []))) \<and>
     llm (fst (snd (initialize test_engine ((test_config ''m.gguf'' [])\<lparr>clip_model_path := ''no-such-mmproj.gguf''\<rparr>)
         (new_MultimodalProcessor (test_config [] []))))) \<noteq> None \<and>
     clip_ctx (fst (snd (initialize test_engine ((test_config ''m.gguf'' [])\<lparr>clip_model_path := ''no-such-mmproj.gguf''\<rparr>)
         (new_MultimodalProcessor (test_config [] []))))) = None"
    by blast
  then show ?thesis
    using ok nc unfolding c by blast
qed

subsection \<open>C4: the full prompt\<close>

text \<open>
  C4. On a loaded processor, for every image path and user prompt \<open>p\<close>, each
  generation method hands the wrapper exactly one prompt:
  \<open>USER: <image>\<close>, a newline, \<open>p\<close>, a newline and \<open>ASSISTANT: \<close> when a vision
  encoder is present, and \<open>p\<close> itself when none is. The wrapper left in the engine
  handle is the one that generated from that prompt.
\<close>

theorem C4_full_prompt:
  assumes "llm s = Some e" and "llm_isLoaded E e"
  shows
    "delegated_prompts (snd (snd (generateFromImage E image_path p s))) =
       [if clip_ctx s \<noteq> None then ''USER: <image>\<newline>'' @ p @ ''\<newline>ASSISTANT: '' else p] \<and>
     llm (fst (snd (generateFromImage E image_path p s))) =
       Some (snd (llm_generate E
         (if clip_ctx s \<noteq> None then ''USER: <image>\<newline>'' @ p @ ''\<newline>ASSISTANT: '' else p) e)) \<and>
     delegated_prompts (snd (snd (generateFromImageStreaming E image_path p callback s))) =
       [if clip_ctx s \<noteq> None then ''USER: <image>\<newline>'' @ p @ ''\<newline>ASSISTANT: '' else p] \<and>
     llm (fst (snd (generateFromImageStreaming E image_path p callback s))) =
       Some (snd (llm_generateStreaming E
         (if clip_ctx s \<noteq> None then ''USER: <image>\<newline>'' @ p @ ''\<newline>ASSISTANT: '' else p)
         callback e))"
  using assms
  by (simp add: generateFromImage_eq generateFromImageStreaming_eq)

theorem C4_full_prompt_witness:
  "llm mm_processor = Some \<lparr>loaded = True, prompts = []\<rparr> \<and>
   llm_isLoaded test_engine \<lparr>loaded = True, prompts = []\<rparr> \<and>
   delegated_prompts (snd (snd (generateFromImage test_engine ''room.png'' ''Describe this'' mm_processor))) =
     [''USER: <image>\<newline>Describe this\<newline>ASSISTANT: ''] \<and>
   llm (fst (snd (generateFromImage test_engine ''room.png'' ''Describe this'' mm_processor))) =
     Some \<lparr>loaded = True, prompts = [''USER: <image>\<newline>Describe this\<newline>ASSISTANT: '']\<rparr> \<and>
   llm text_processor = Some \<lparr>loaded = True, prompts = []\<rparr> \<and>
   delegated_prompts (snd (snd (generateFromImageStreaming test_engine ''room.png'' ''Describe this'' () text_processor))) =
     [''Describe this''] \<and>
   llm (fst (snd (generateFromImageStreaming test_engine ''room.png'' ''Describe this'' () text_processor))) =
     Some \<lparr>loaded = True, prompts = [''Describe this'']\<rparr>"
proof -
  have m: "llm mm_processor = Some \<lparr>loaded = True, prompts = []\<rparr>"
    by (simp add: mm_processor_def)
  have t: "llm text_processor = Some \<lparr>loaded = True, prompts = []\<rparr>"
    by (simp add: text_processor_def)
  have l: "llm_isLoaded test_engine \<lparr>loaded = True, prompts = []\<rparr>"
    by (simp add: test_engine_def)
  have cm: "clip_ctx mm_processor \<noteq> None"
    by (simp add: mm_processor_def)
  have ct: "clip_ctx text_processor = None"
    by (simp add: text_processor_def)
  have g: "\<And>q. snd (llm_generate test_engine q \<lparr>loaded = True, prompts = []\<rparr>) =
             \<lparr>loaded = True, prompts = [q]\<rparr>"
    by (simp add: test_engine_def)
  have gs: "\<And>q. snd (llm_generateStreaming test_engine q () \<lparr>loaded = True, prompts = []\<rparr>) =
             \<lparr>loaded = True, prompts = [q]\<rparr>"
    by (simp add: test_engine_def)
  note a = C4_full_prompt [OF m l, of "''room.png''" "''Describe this''" "()"]
  note b = C4_full_prompt [OF t l, of "''room.png''" "''Describe this''" "()"]
  from a cm have a1:
    "delegated_prompts (snd (snd (generateFromImage test_engine ''room.png'' ''Describe this'' mm_processor))) =
       [''USER: <image>\<newline>Describe this\<newline>ASSISTANT: '']"
    by simp
  from a cm have a2:
    "llm (fst (snd (generateFromImage test_engine ''room.png'' ''Describe this'' mm_processor))) =
       Some \<lparr>loaded = True, prompts = [''USER: <image>\<newline>Describe this\<newline>ASSISTANT: '']\<rparr>"
    by (simp add: g)
  from b ct have b1:
    "delegated_prompts (snd (snd (generateFromImageStreaming test_engine ''room.png'' ''Describe this'' () text_processor))) =
       [''Describe this'']"
    by simp
  from b ct have b2:
    "llm (fst (snd (generateFromImageStreaming test_engine ''room.png'' ''Describe this'' () text_processor))) =
       Some \<lparr>loaded = True, prompts = [''Describe this'']\<rparr>"
    by (simp add: gs)
  show ?thesis
    using m l a1 a2 t b1 b2 by (intro conjI)
qed

subsection \<open>C5: the failures of the generation methods\<close>



subsection \<open>C6: \<open>cleanup\<close>\<close>



subsection \<open>C7: \<open>isLoaded\<close>\<close>




subsection \<open>C8: \<open>loadImage\<close> without a vision encoder\<close>

text \<open>
  C8. For every path, \<open>loadImage\<close> on a processor without a vision encoder returns
  failure, writes the line \<open>Vision encoder not initialized\<close> to the error stream,
  makes no other call, and returns the processor exactly as it was: the cached
  embedding, the encoder handle, the engine handle and the config are unchanged.
\<close>

theorem C8_loadImage_without_encoder:
  assumes "clip_ctx s = None"
  shows "loadImage image_path s = (False, s, [Cerr ''Vision encoder not initialized''])"
  using assms by (simp add: loadImage_def)

theorem C8_loadImage_without_encoder_witness:
  "clip_ctx (new_MultimodalProcessor (test_config [] []) :: test_llm MultimodalProcessor) = None \<and>
   loadImage ''cat.png'' (new_MultimodalProcessor (test_config [] []) :: test_llm MultimodalProcessor) =
     (False, new_MultimodalProcessor (test_config [] []), [Cerr ''Vision encoder not initialized''])"
proof -
  have h: "clip_ctx (new_MultimodalProcessor (test_config [] []) :: test_llm MultimodalProcessor) = None"
    by (simp add: new_MultimodalProcessor_def)
  show ?thesis
    using h C8_loadImage_without_encoder [OF h, of "''cat.png''"] by simp
qed

subsection \<open>C9: the vision encoder is never loaded\<close>

text \<open>
  C9. \<open>initialize\<close> leaves the vision-encoder handle as it was and \<open>cleanup\<close> sets it
  to null. So after any sequence of public calls on a fresh processor, whatever the
  wrapper does, the handle is null: the processor is uninitialised or text-only,
  \<open>loadImage\<close> fails at its guard for every path, and each generation method either
  stops at the invalid-state guard without emitting anything or emits exactly the
  delegation of the user's prompt, unchanged. Neither method takes the branch that
  throws the image-load error.
\<close>

theorem C9_encoder_never_loaded:
  "clip_ctx (fst (snd (initialize E cfg s))) = clip_ctx s \<and>
   clip_ctx (fst (cleanup s)) = None \<and>
   clip_ctx (run E calls (new_MultimodalProcessor dflt)) = None \<and>
   loadImage image_path (run E calls (new_MultimodalProcessor dflt)) =
     (False, run E calls (new_MultimodalProcessor dflt), [Cerr ''Vision encoder not initialized'']) \<and>
   snd (snd (generateFromImage E image_path p (run E calls (new_MultimodalProcessor dflt)))) =
     (if isLoaded E (run E calls (new_MultimodalProcessor dflt))
      then [LLMWrapper_generate p] else []) \<and>
   snd (snd (generateFromImageStreaming E image_path p callback
               (run E calls (new_MultimodalProcessor dflt)))) =
     (if isLoaded E (run E calls (new_MultimodalProcessor dflt))
      then [LLMWrapper_generateStreaming p] else [])"
proof -
  have "clip_ctx (new_MultimodalProcessor dflt :: 'a MultimodalProcessor) = None"
    by (simp add: new_MultimodalProcessor_def)
  then have r: "clip_ctx (run E calls (new_MultimodalProcessor dflt)) = None"
    by (rule clip_ctx_run)
  show ?thesis
    using r
    by (simp add: clip_ctx_initialize clip_ctx_cleanup loadImage_no_encoder
        generateFromImage_events_text_only generateFromImageStreaming_events_text_only)
qed

theorem C9_encoder_never_loaded_witness:
  "isLoaded test_engine (run test_engine test_calls (new_MultimodalProcessor (test_config [] []))) \<and>
   clip_ctx (run test_engine test_calls (new_MultimodalProcessor (test_config [] []))) = None \<and>
   fst (loadImage ''room.png''
     (run test_engine test_calls (new_MultimodalProcessor (test_config [] [])))) = False \<and>
   snd (snd (generateFromImage test_engine ''room.png'' ''Describe this''
     (run test_engine test_calls (new_MultimodalProcessor (test_config [] []))))) =
     [LLMWrapper_generate ''Describe this''] \<and>
   snd (snd (generateFromImageStreaming test_engine ''room.png'' ''Describe this'' ()
     (run test_engine test_calls (new_MultimodalProcessor (test_config [] []))))) =
     [LLMWrapper_generateStreaming ''Describe this'']"
proof -
  have l: "isLoaded test_engine (run test_engine test_calls (new_MultimodalProcessor (test_config [] [])))"
    unfolding run_test_calls by (simp add: isLoaded_def test_engine_def)
  note t = C9_encoder_never_loaded [where E = test_engine and calls = test_calls
      and dflt = "test_config [] []" and image_path = "''room.png''" and p = "''Describe this''"
      and callback = "()" and s = mm_processor and cfg = "test_config [] []"]
  show ?thesis
    using l t by simp
qed

subsection \<open>C10: the two generation methods\<close>

text \<open>
  C10. For every processor, image path and prompt, both generation methods are the
  common prelude followed by one call. When the prelude fails, both fail with its
  error, its processor and its events. When it yields a full prompt, both continue
  from the same processor and the same events with that same prompt: one calls the
  wrapper's blocking generation, the other its streaming generation.
\<close>

theorem C10_same_prelude:
  "generateFromImage E image_path p s =
     (case common_prelude E image_path p s of
        (Inl err, s1, ev) \<Rightarrow> (Inl err, s1, ev)
      | (Inr full_prompt, s1, ev) \<Rightarrow>
          (case llm s1 of
             None \<Rightarrow> (Inl null_dereference, s1, ev)
           | Some e \<Rightarrow>
               ((case fst (llm_generate E full_prompt e) of
                   Inl w \<Rightarrow> Inl (runtime_error w) | Inr out \<Rightarrow> Inr out),
                s1\<lparr>llm := Some (snd (llm_generate E full_prompt e))\<rparr>,
                ev @ [LLMWrapper_generate full_prompt]))) \<and>
   generateFromImageStreaming E image_path p callback s =
     (case common_prelude E image_path p s of
        (Inl err, s1, ev) \<Rightarrow> (Inl err, s1, ev)
      | (Inr full_prompt, s1, ev) \<Rightarrow>
          (case llm s1 of
             None \<Rightarrow> (Inl null_dereference, s1, ev)
           | Some e \<Rightarrow>
               ((case fst (llm_generateStreaming E full_prompt callback e) of
                   Some w \<Rightarrow> Inl (runtime_error w) | None \<Rightarrow> Inr ()),
                s1\<lparr>llm := Some (snd (llm_generateStreaming E full_prompt callback e))\<rparr>,
                ev @ [LLMWrapper_generateStreaming full_prompt])))"
proof (cases "isLoaded E s")
  case False
  then show ?thesis
    by (simp add: common_prelude_def generateFromImage_not_loaded
        generateFromImageStreaming_not_loaded InvalidState_def)
next
  case True
  then obtain e where e: "llm s = Some e" "llm_isLoaded E e"
    by (auto simp: isLoaded_iff)
  show ?thesis
  proof (cases "clip_ctx s")
    case None
    with True e show ?thesis
      by (simp add: common_prelude_def generateFromImage_eq generateFromImageStreaming_eq)
  next
    case (Some c)
    with True e show ?thesis
      by (simp add: common_prelude_def generateFromImage_eq generateFromImageStreaming_eq
          loadImage_with_encoder)
  qed
qed

theorem C10_same_prelude_witness:
  "common_prelude test_engine ''room.png'' ''Describe this'' mm_processor =
     (Inr ''USER: <image>\<newline>Describe this\<newline>ASSISTANT: '',
      mm_processor\<lparr>image_embed := None\<rparr>, [llava_image_embed_free 7]) \<and>
   generateFromImage test_engine ''room.png'' ''Describe this'' mm_processor =
     (Inr ''ok'',
      mm_processor\<lparr>image_embed := None,
                   llm := Some \<lparr>loaded = True,
                                prompts = [''USER: <image>\<newline>Describe this\<newline>ASSISTANT: '']\<rparr>\<rparr>,
      [llava_image_embed_free 7,
       LLMWrapper_generate ''USER: <image>\<newline>Describe this\<newline>ASSISTANT: '']) \<and>
   generateFromImageStreaming test_engine ''room.png'' ''Describe this'' () mm_processor =
     (Inr (),
      mm_processor\<lparr>image_embed := None,
                   llm := Some \<lparr>loaded = True,
                                prompts = [''USER: <image>\<newline>Describe this\<newline>ASSISTANT: '']\<rparr>\<rparr>,
      [llava_image_embed_free 7,
       LLMWrapper_generateStreaming ''USER: <image>\<newline>Describe this\<newline>ASSISTANT: ''])"
proof -
  have c: "common_prelude test_engine ''room.png'' ''Describe this'' mm_processor =
     (Inr ''USER: <image>\<newline>Describe this\<newline>ASSISTANT: '',
      mm_processor\<lparr>image_embed := None\<rparr>, [llava_image_embed_free 7])"
    by (simp add: common_prelude_def isLoaded_def loadImage_def mm_processor_def test_engine_def)
  have l: "llm (mm_processor\<lparr>image_embed := None\<rparr>) = Some \<lparr>loaded = True, prompts = []\<rparr>"
    by (simp add: mm_processor_def)
  note t = C10_same_prelude [where E = test_engine and image_path = "''room.png''"
      and p = "''Describe this''" and callback = "()" and s = mm_processor]
  have g: "generateFromImage test_engine ''room.png'' ''Describe this'' mm_processor =
     (Inr ''ok'',
      mm_processor\<lparr>image_embed := None,
                   llm := Some \<lparr>loaded = True,
                                prompts = [''USER: <image>\<newline>Describe this\<newline>ASSISTANT: '']\<rparr>\<rparr>,
      [llava_image_embed_free 7,
       LLMWrapper_generate ''USER: <image>\<newline>Describe this\<newline>ASSISTANT: ''])"
    using t [THEN conjunct1] unfolding c by (simp add: l test_engine_def)
  have gs: "generateFromImageStreaming test_engine ''room.png'' ''Describe this'' () mm_processor =
     (Inr (),
      mm_processor\<lparr>image_embed := None,
                   llm := Some \<lparr>loaded = True,
                                prompts = [''USER: <image>\<newline>Describe this\<newline>ASSISTANT: '']\<rparr>\<rparr>,
      [llava_image_embed_free 7,
       LLMWrapper_generateStreaming ''USER: <image>\<newline>Describe this\<newline>ASSISTANT: ''])"
    using t [THEN conjunct2] unfolding c by (simp add: l test_engine_def)
  show ?thesis
    using c g gs by (intro conjI)
qed

end
